theory Spec2Isabelle
  imports Main "HOL-Library.Word"
begin

section \<open>Memory\<close>

text \<open>
  The allocator of \<^verbatim>\<open>editor2.h\<close> keeps its usage bitmap and its element buffer in one
  block of raw memory and reads the bitmap eight bytes at a time, so the model is a flat,
  byte-addressed memory. An address is an integer, 0 is the null pointer. C \<^verbatim>\<open>int\<close>
  values are modelled as unbounded integers, except where the source narrows a wider value
  to \<^verbatim>\<open>int\<close> (\<open>Start\<close> in \<^verbatim>\<open>Dealloc\<close>); \<^verbatim>\<open>sizeof(T)\<close> is the parameter \<open>sz\<close> of
  every operation on elements.
\<close>

type_synonym u8 = "8 word"
type_synonym u64 = "64 word"
type_synonym addr = int

record memory =
  mem_bytes :: "addr \<Rightarrow> u8"
  mem_blocks :: "(addr \<times> int) list"
  mem_breaks :: nat

text \<open>
  Modelled from the spec: \<^verbatim>\<open>mem_alloc\<close>, \<^verbatim>\<open>mem_free\<close>, \<^verbatim>\<open>mem_zero\<close> and \<^verbatim>\<open>mem_copy\<close> are
  declared in \<^verbatim>\<open>base/system.h\<close>, which is not part of the header. They are the heap
  allocation, the release, the zero fill and the byte copy of the specification.
  \<open>mem_blocks\<close> lists the blocks handed out by \<^verbatim>\<open>mem_alloc\<close> and not yet given back
  (start address, size in bytes). The address \<^verbatim>\<open>mem_alloc\<close> returns is chosen by the
  environment and is an argument of the operations that call it; the memory it returns is
  not initialised. \<open>mem_breaks\<close> counts the \<^verbatim>\<open>dbg_break()\<close> traps signalled so far.
\<close>

definition mem_alloc :: "memory \<Rightarrow> addr \<Rightarrow> int \<Rightarrow> memory" where
  "mem_alloc h p n = h\<lparr>mem_blocks := (p, n) # mem_blocks h\<rparr>"

definition mem_free :: "memory \<Rightarrow> addr \<Rightarrow> memory" where
  "mem_free h p = h\<lparr>mem_blocks := filter (\<lambda>b. fst b \<noteq> p) (mem_blocks h)\<rparr>"

text \<open>A \<^verbatim>\<open>size_t\<close> argument: a negative \<^verbatim>\<open>int\<close> converts to a huge unsigned value.\<close>

definition size_t :: "int \<Rightarrow> int" where
  "size_t n = n mod 2 ^ 64"

definition memset :: "(addr \<Rightarrow> u8) \<Rightarrow> addr \<Rightarrow> u8 \<Rightarrow> int \<Rightarrow> (addr \<Rightarrow> u8)" where
  "memset m p v n = (\<lambda>x. if p \<le> x \<and> x < p + n then v else m x)"

definition mem_zero :: "(addr \<Rightarrow> u8) \<Rightarrow> addr \<Rightarrow> int \<Rightarrow> (addr \<Rightarrow> u8)" where
  "mem_zero m p n = memset m p 0 n"

text \<open>\<^verbatim>\<open>memmove\<close>; \<^verbatim>\<open>mem_copy\<close> (\<^verbatim>\<open>memcpy\<close>) agrees with it on regions that do not overlap.\<close>

definition memmove :: "(addr \<Rightarrow> u8) \<Rightarrow> addr \<Rightarrow> addr \<Rightarrow> int \<Rightarrow> (addr \<Rightarrow> u8)" where
  "memmove m dst src n = (\<lambda>x. if dst \<le> x \<and> x < dst + n then m (src + (x - dst)) else m x)"

definition mem_copy :: "(addr \<Rightarrow> u8) \<Rightarrow> addr \<Rightarrow> addr \<Rightarrow> int \<Rightarrow> (addr \<Rightarrow> u8)" where
  "mem_copy m dst src n = memmove m dst src n"

text \<open>The load \<^verbatim>\<open>*(u64*)p\<close>: eight bytes, least significant first.\<close>

definition load_u64 :: "(addr \<Rightarrow> u8) \<Rightarrow> addr \<Rightarrow> u64" where
  "load_u64 m p = word_of_nat (horner_sum unat 256
     [m p, m (p + 1), m (p + 2), m (p + 3), m (p + 4), m (p + 5), m (p + 6), m (p + 7)])"

text \<open>Integer division of C: the quotient is truncated towards zero.\<close>

definition c_div :: "int \<Rightarrow> int \<Rightarrow> int" where
  "c_div a b = sgn a * sgn b * (\<bar>a\<bar> div \<bar>b\<bar>)"

datatype error = Assert_Failed | Division_By_Zero

section \<open>CMemBlock and CChainAllocator\<close>

record CMemBlock =
  m_pStart :: addr
  m_Count :: int

record CChainAllocator =
  m_AllocatedSize :: int
  m_aRingUsed :: addr
  m_pElementBuffer :: addr
  ELT_COUNT_MAX :: int
  RING_ELT_COUNT :: int

definition CChainAllocator_new :: CChainAllocator where
  "CChainAllocator_new =
     \<lparr>m_AllocatedSize = 0, m_aRingUsed = 0, m_pElementBuffer = 0,
      ELT_COUNT_MAX = 0, RING_ELT_COUNT = 1\<rparr>"

definition TOTAL_RING_COUNT :: "CChainAllocator \<Rightarrow> int" where
  "TOTAL_RING_COUNT a = c_div (ELT_COUNT_MAX a) (RING_ELT_COUNT a)"

text \<open>
  \<^verbatim>\<open>Init\<close>. The two \<^verbatim>\<open>u32\<close> arguments are converted to \<^verbatim>\<open>int\<close>; \<open>p\<close> is the address
  returned by \<^verbatim>\<open>mem_alloc\<close>. The element buffer starts \<open>ELT_COUNT_MAX\<close> bytes
  after the bitmap, as the source computes it.
\<close>

definition Init :: "int \<Rightarrow> addr \<Rightarrow> CChainAllocator \<Rightarrow> memory \<Rightarrow> 32 word \<Rightarrow> 32 word
    \<Rightarrow> error + (CChainAllocator \<times> memory)" where
  "Init sz p a h ElementCountMax RingElementCount =
     (let a1 = a\<lparr>ELT_COUNT_MAX := sint ElementCountMax, RING_ELT_COUNT := sint RingElementCount\<rparr>
      in if RING_ELT_COUNT a1 = 0 then Inl Division_By_Zero
         else if m_pElementBuffer a1 \<noteq> 0 then Inl Assert_Failed
         else
           let size = TOTAL_RING_COUNT a1 + sz * ELT_COUNT_MAX a1;
               a2 = a1\<lparr>m_AllocatedSize := size, m_aRingUsed := p,
                       m_pElementBuffer := p + ELT_COUNT_MAX a1\<rparr>;
               h1 = mem_alloc h p size
           in Inr (a2, h1\<lparr>mem_bytes := mem_zero (mem_bytes h1) p (size_t (TOTAL_RING_COUNT a1))\<rparr>))"

definition Clear :: "CChainAllocator \<Rightarrow> memory \<Rightarrow> error + memory" where
  "Clear a h =
     (if RING_ELT_COUNT a = 0 then Inl Division_By_Zero
      else Inr (h\<lparr>mem_bytes := mem_zero (mem_bytes h) (m_aRingUsed a) (size_t (TOTAL_RING_COUNT a))\<rparr>))"

text \<open>
  The scan loop of \<^verbatim>\<open>Alloc\<close>, up to the point where a chain is found or the loop ends.
  The loop writes nothing before it has found a chain, so the scan is a function of the
  memory. Its result is the pair \<open>(ChainRingStart, ChainRingCount)\<close> of the chain found,
  or \<open>None\<close> when the loop runs to its end. The last argument collects, in order, the
  indices \<open>i\<close> at which the eight-byte load \<^verbatim>\<open>*(u64*)(m_aRingUsed+i)\<close> was executed.
  For a negative \<open>Count\<close> the loop index can move backwards and the loop need not end;
  the function is therefore partial, the outer \<open>None\<close> meaning that it does not return.
\<close>

partial_function (option) Alloc_scan ::
  "CChainAllocator \<Rightarrow> (addr \<Rightarrow> u8) \<Rightarrow> int \<Rightarrow> int \<Rightarrow> int \<Rightarrow> int \<Rightarrow> int list
    \<Rightarrow> ((int \<times> int) option \<times> int list) option" where
  "Alloc_scan a m Count i ChainRingStart ChainRingCount reads =
     (if i < TOTAL_RING_COUNT a then
        (let Ring8 = load_u64 m (m_aRingUsed a + i); reads1 = reads @ [i] in
         if Ring8 = 0 then
           (let ChainRingCount1 = ChainRingCount + min Count 8;
                i1 = i + (min Count 8 - 1)
            in if ChainRingCount1 * RING_ELT_COUNT a \<ge> Count
               then Some (Some (ChainRingStart, ChainRingCount1), reads1)
               else Alloc_scan a m Count (i1 + 1) ChainRingStart ChainRingCount1 reads1)
         else if Ring8 = 0xFFFFFFFFFFFFFFFF then
           Alloc_scan a m Count (i + 7 + 1) (i + 8) 0 reads1
         else if m (m_aRingUsed a + i) \<noteq> 0 then
           Alloc_scan a m Count (i + 1) (i + 1) 0 reads1
         else
           (let ChainRingCount1 = ChainRingCount + 1
            in if ChainRingCount1 * RING_ELT_COUNT a \<ge> Count
               then Some (Some (ChainRingStart, ChainRingCount1), reads1)
               else Alloc_scan a m Count (i + 1) ChainRingStart ChainRingCount1 reads1))
      else Some (None, reads))"

text \<open>
  \<^verbatim>\<open>Alloc\<close>. \<open>dbg\<close> says whether \<^verbatim>\<open>CONF_DEBUG\<close> is defined, \<open>pFallBack\<close> is the address
  \<^verbatim>\<open>mem_alloc\<close> returns if the fallback is taken. The allocator object itself is not
  changed: the bitmap and the elements live in the memory.
\<close>

text \<open>
  Modelled from the spec: \<^verbatim>\<open>dbg_assert\<close> and \<^verbatim>\<open>dbg_break\<close> are declared in
  \<^verbatim>\<open>base/system.h\<close>, which is not part of the header. A failed \<^verbatim>\<open>dbg_assert\<close> is
  fatal (the result \<open>Inl Assert_Failed\<close>); \<^verbatim>\<open>dbg_break\<close> signals a trap after which the
  allocation still completes.
\<close>

definition dbg_break :: "memory \<Rightarrow> memory" where
  "dbg_break h = h\<lparr>mem_breaks := Suc (mem_breaks h)\<rparr>"

definition Alloc :: "int \<Rightarrow> bool \<Rightarrow> addr \<Rightarrow> CChainAllocator \<Rightarrow> memory \<Rightarrow> int
    \<Rightarrow> (error + (CMemBlock \<times> memory)) option" where
  "Alloc sz dbg pFallBack a h Count =
     (if m_pElementBuffer a = 0 then Some (Inl Assert_Failed)
      else if RING_ELT_COUNT a = 0 then Some (Inl Division_By_Zero)
      else
        (case Alloc_scan a (mem_bytes h) Count 0 0 0 [] of
           None \<Rightarrow> None
         | Some (Some (ChainRingStart, ChainRingCount), reads) \<Rightarrow>
             (let m1 = memset (mem_bytes h) (m_aRingUsed a + ChainRingStart) 0xFF
                         (size_t ChainRingCount);
                  Block = \<lparr>m_pStart = m_pElementBuffer a + sz * (ChainRingStart * RING_ELT_COUNT a),
                           m_Count = ChainRingCount * RING_ELT_COUNT a\<rparr>;
                  m2 = mem_zero m1 (m_pStart Block) (size_t (sz * m_Count Block))
              in if ChainRingStart * RING_ELT_COUNT a + m_Count Block \<le> ELT_COUNT_MAX a
                 then Some (Inr (Block, h\<lparr>mem_bytes := m2\<rparr>))
                 else Some (Inl Assert_Failed))
         | Some (None, reads) \<Rightarrow>
             (let h1 = (if dbg then dbg_break h else h);
                  h2 = mem_alloc h1 pFallBack (size_t (sz * Count));
                  Block = \<lparr>m_pStart = pFallBack, m_Count = Count\<rparr>
              in Some (Inr (Block,
                   h2\<lparr>mem_bytes := mem_zero (mem_bytes h2) (m_pStart Block)
                                      (size_t (sz * m_Count Block))\<rparr>)))))"

text \<open>The indices at which \<^verbatim>\<open>Alloc\<close> executes its eight-byte load.\<close>

definition Alloc_reads :: "CChainAllocator \<Rightarrow> memory \<Rightarrow> int \<Rightarrow> int list option" where
  "Alloc_reads a h Count = map_option snd (Alloc_scan a (mem_bytes h) Count 0 0 0 [])"

text \<open>
  \<^verbatim>\<open>Dealloc\<close>. The difference \<^verbatim>\<open>pBlock->m_pStart - m_pElementBuffer\<close> of two \<^verbatim>\<open>T*\<close>
  is the difference of the addresses divided by \<^verbatim>\<open>sizeof(T)\<close>; the division is exact for
  two pointers into one array of \<^verbatim>\<open>T\<close>, and rounds down otherwise. The source stores the
  64-bit difference in the \<^verbatim>\<open>int\<close> \<open>Start\<close>: the conversion keeps the low 32 bits, read as
  a signed number. The sum \<^verbatim>\<open>Start+Count\<close> of the range test is taken as the sum of the two
  numbers (it exceeds an \<^verbatim>\<open>int\<close> only for blocks of close to \<open>2 ^ 31\<close> elements).
\<close>

definition ptr_diff :: "int \<Rightarrow> addr \<Rightarrow> addr \<Rightarrow> int" where
  "ptr_diff sz p q = (p - q) div sz"

definition to_int :: "int \<Rightarrow> int" where
  "to_int x = sint (word_of_int x :: 32 word)"

definition Dealloc :: "int \<Rightarrow> CChainAllocator \<Rightarrow> memory \<Rightarrow> CMemBlock
    \<Rightarrow> error + (CMemBlock \<times> memory)" where
  "Dealloc sz a h Block =
     (if m_Count Block \<le> 0 then Inr (Block, h)
      else
        (let Start = to_int (ptr_diff sz (m_pStart Block) (m_pElementBuffer a));
             Count = m_Count Block
         in if Start \<ge> 0 \<and> Start + Count \<le> ELT_COUNT_MAX a then
              (if RING_ELT_COUNT a = 0 then Inl Division_By_Zero
               else Inr (Block\<lparr>m_Count := 0\<rparr>,
                         h\<lparr>mem_bytes := mem_zero (mem_bytes h)
                                           (m_aRingUsed a + c_div Start (RING_ELT_COUNT a))
                                           (size_t (c_div Count (RING_ELT_COUNT a)))\<rparr>))
            else Inr (Block\<lparr>m_Count := 0\<rparr>, mem_free h (m_pStart Block))))"

text \<open>\<^verbatim>\<open>AllocOne\<close> and \<^verbatim>\<open>DeallocOne\<close>: one element, the block descriptor left out.\<close>

definition AllocOne :: "int \<Rightarrow> bool \<Rightarrow> addr \<Rightarrow> CChainAllocator \<Rightarrow> memory
    \<Rightarrow> (error + (addr \<times> memory)) option" where
  "AllocOne sz dbg pFallBack a h =
     map_option (map_sum id (\<lambda>(Block, h1). (m_pStart Block, h1))) (Alloc sz dbg pFallBack a h 1)"

definition DeallocOne :: "int \<Rightarrow> CChainAllocator \<Rightarrow> memory \<Rightarrow> addr \<Rightarrow> error + memory" where
  "DeallocOne sz a h pPtr =
     map_sum id snd (Dealloc sz a h \<lparr>m_pStart = pPtr, m_Count = 1\<rparr>)"

section \<open>CDynArray\<close>

text \<open>
  \<open>m_pAllocator\<close> is a pointer to the allocator the array is bound to (\<open>None\<close> is the
  null pointer). The fields of an initialised allocator never change, so the array holds
  them by value. Elements are relocated and assigned as raw bytes; the destructor
  \<^verbatim>\<open>~T()\<close> of an element is taken to have no effect on the memory.
\<close>

record CDynArray =
  m_pAllocator :: "CChainAllocator option"
  m_MemBlock :: CMemBlock
  m_EltCount :: int

datatype dyn_error = Alloc_Error error | Null_Allocator | Out_Of_Bounds | Bad_Count | Already_Init

definition Count :: "CDynArray \<Rightarrow> int" where
  "Count arr = m_EltCount arr"

definition Capacity :: "CDynArray \<Rightarrow> int" where
  "Capacity arr = m_Count (m_MemBlock arr)"

definition Data :: "CDynArray \<Rightarrow> addr" where
  "Data arr = m_pStart (m_MemBlock arr)"

text \<open>The bytes of the element \<^verbatim>\<open>p[i]\<close> of a \<^verbatim>\<open>T*\<close> \<open>p\<close>, and the element \<^verbatim>\<open>Data()[i]\<close>.\<close>

definition elt_bytes :: "int \<Rightarrow> (addr \<Rightarrow> u8) \<Rightarrow> addr \<Rightarrow> int \<Rightarrow> u8 list" where
  "elt_bytes sz m p i = map (\<lambda>k. m (p + sz * i + int k)) [0..<nat sz]"

definition elt :: "int \<Rightarrow> memory \<Rightarrow> CDynArray \<Rightarrow> int \<Rightarrow> u8 list" where
  "elt sz h arr i = elt_bytes sz (mem_bytes h) (Data arr) i"

definition elts :: "int \<Rightarrow> memory \<Rightarrow> CDynArray \<Rightarrow> u8 list list" where
  "elts sz h arr = map (\<lambda>i. elt sz h arr (int i)) [0..<nat (m_EltCount arr)]"

definition DynArray_Init :: "CDynArray \<Rightarrow> CChainAllocator \<Rightarrow> dyn_error + CDynArray" where
  "DynArray_Init arr pAllocator =
     (if m_pAllocator arr \<noteq> None then Inl Already_Init
      else Inr \<lparr>m_pAllocator = Some pAllocator,
                m_MemBlock = \<lparr>m_pStart = 0, m_Count = 0\<rparr>, m_EltCount = 0\<rparr>)"

definition Reserve :: "int \<Rightarrow> bool \<Rightarrow> addr \<Rightarrow> memory \<Rightarrow> CDynArray \<Rightarrow> int
    \<Rightarrow> (dyn_error + (CDynArray \<times> memory)) option" where
  "Reserve sz dbg pFallBack h arr NewCapacity =
     (case m_pAllocator arr of
        None \<Rightarrow> Some (Inl Null_Allocator)
      | Some a \<Rightarrow>
          if NewCapacity \<le> Capacity arr then Some (Inr (arr, h))
          else
            (case Alloc sz dbg pFallBack a h NewCapacity of
               None \<Rightarrow> None
             | Some (Inl e) \<Rightarrow> Some (Inl (Alloc_Error e))
             | Some (Inr (NewBlock, h1)) \<Rightarrow>
                 (let h2 = h1\<lparr>mem_bytes := mem_copy (mem_bytes h1) (m_pStart NewBlock) (Data arr)
                                               (size_t (Capacity arr * sz))\<rparr>
                  in case Dealloc sz a h2 (m_MemBlock arr) of
                       Inl e \<Rightarrow> Some (Inl (Alloc_Error e))
                     | Inr (OldBlock, h3) \<Rightarrow> Some (Inr (arr\<lparr>m_MemBlock := NewBlock\<rparr>, h3)))))"

text \<open>
  \<^verbatim>\<open>Add(aElements, Count)\<close>: \<open>aElements\<close> is the address of the first element to copy. The
  result holds the address of the reference the source returns, \<^verbatim>\<open>*(Data()-Count)\<close>.
\<close>

definition Add :: "int \<Rightarrow> bool \<Rightarrow> addr \<Rightarrow> memory \<Rightarrow> CDynArray \<Rightarrow> addr \<Rightarrow> int
    \<Rightarrow> (dyn_error + (addr \<times> CDynArray \<times> memory)) option" where
  "Add sz dbg pFallBack h arr aElements Cnt =
     (case (if m_EltCount arr + Cnt \<ge> Capacity arr
            then Reserve sz dbg pFallBack h arr (max (Capacity arr * 2) (m_EltCount arr + Cnt))
            else Some (Inr (arr, h))) of
        None \<Rightarrow> None
      | Some (Inl e) \<Rightarrow> Some (Inl e)
      | Some (Inr (arr1, h1)) \<Rightarrow>
          (let h2 = h1\<lparr>mem_bytes := mem_copy (mem_bytes h1) (Data arr1 + sz * m_EltCount arr1)
                                        aElements (size_t (Cnt * sz))\<rparr>;
               arr2 = arr1\<lparr>m_EltCount := m_EltCount arr1 + Cnt\<rparr>
           in Some (Inr (Data arr2 - sz * Cnt, arr2, h2))))"

text \<open>\<^verbatim>\<open>Add(Elt)\<close> is \<^verbatim>\<open>Add(&Elt, 1)\<close>.\<close>

definition Add_one :: "int \<Rightarrow> bool \<Rightarrow> addr \<Rightarrow> memory \<Rightarrow> CDynArray \<Rightarrow> addr
    \<Rightarrow> (dyn_error + (addr \<times> CDynArray \<times> memory)) option" where
  "Add_one sz dbg pFallBack h arr pElt = Add sz dbg pFallBack h arr pElt 1"

definition AddEmpty :: "int \<Rightarrow> bool \<Rightarrow> addr \<Rightarrow> memory \<Rightarrow> CDynArray \<Rightarrow> int
    \<Rightarrow> (dyn_error + (addr \<times> CDynArray \<times> memory)) option" where
  "AddEmpty sz dbg pFallBack h arr Cnt =
     (if \<not> Cnt > 0 then Some (Inl Bad_Count)
      else
        (case (if m_EltCount arr + Cnt \<ge> Capacity arr
               then Reserve sz dbg pFallBack h arr (max (Capacity arr * 2) (m_EltCount arr + Cnt))
               else Some (Inr (arr, h))) of
           None \<Rightarrow> None
         | Some (Inl e) \<Rightarrow> Some (Inl e)
         | Some (Inr (arr1, h1)) \<Rightarrow>
             (let h2 = h1\<lparr>mem_bytes := mem_zero (mem_bytes h1) (Data arr1 + sz * m_EltCount arr1)
                                           (size_t (Cnt * sz))\<rparr>;
                  arr2 = arr1\<lparr>m_EltCount := m_EltCount arr1 + Cnt\<rparr>
              in Some (Inr (Data arr2 - sz * Cnt, arr2, h2)))))"

definition DynArray_Clear :: "int \<Rightarrow> memory \<Rightarrow> CDynArray \<Rightarrow> dyn_error + (CDynArray \<times> memory)" where
  "DynArray_Clear sz h arr =
     (case m_pAllocator arr of
        None \<Rightarrow> Inl Null_Allocator
      | Some a \<Rightarrow>
          (case Dealloc sz a h (m_MemBlock arr) of
             Inl e \<Rightarrow> Inl (Alloc_Error e)
           | Inr (Block, h1) \<Rightarrow>
               Inr (arr\<lparr>m_MemBlock := \<lparr>m_pStart = 0, m_Count = 0\<rparr>, m_EltCount := 0\<rparr>, h1)))"

definition RemoveByIndex :: "int \<Rightarrow> memory \<Rightarrow> CDynArray \<Rightarrow> int \<Rightarrow> dyn_error + (CDynArray \<times> memory)" where
  "RemoveByIndex sz h arr Index =
     (if \<not> (Index \<ge> 0 \<and> Index < m_EltCount arr) then Inl Out_Of_Bounds
      else Inr (arr\<lparr>m_EltCount := m_EltCount arr - 1\<rparr>,
                h\<lparr>mem_bytes := mem_copy (mem_bytes h) (Data arr + sz * Index)
                                   (Data arr + sz * (m_EltCount arr - 1)) sz\<rparr>))"

definition RemoveByIndexSlide :: "int \<Rightarrow> memory \<Rightarrow> CDynArray \<Rightarrow> int
    \<Rightarrow> dyn_error + (CDynArray \<times> memory)" where
  "RemoveByIndexSlide sz h arr Index =
     (if \<not> (Index \<ge> 0 \<and> Index < m_EltCount arr) then Inl Out_Of_Bounds
      else Inr (arr\<lparr>m_EltCount := m_EltCount arr - 1\<rparr>,
                h\<lparr>mem_bytes := memmove (mem_bytes h) (Data arr + sz * Index)
                                   (Data arr + sz * (Index + 1))
                                   (size_t ((m_EltCount arr - (Index + 1)) * sz))\<rparr>))"

text \<open>\<^verbatim>\<open>operator[]\<close>: the address of the element.\<close>

definition at_index :: "int \<Rightarrow> CDynArray \<Rightarrow> int \<Rightarrow> dyn_error + addr" where
  "at_index sz arr Index =
     (if \<not> (Index \<ge> 0 \<and> Index < m_EltCount arr) then Inl Out_Of_Bounds
      else Inr (m_pStart (m_MemBlock arr) + sz * Index))"

section \<open>CDynArraySB\<close>

text \<open>
  The class adds an inline buffer \<open>m_BaseData\<close> to \<^verbatim>\<open>array<T, ALLOCATOR>\<close>. The fields
  \<open>list\<close>, \<open>list_size\<close> and \<open>num_elements\<close> are those of the base class;
  \<open>m_BaseData\<close> is the address of the inline buffer, fixed for the lifetime of the
  object. Only which storage is active and the two sizes are modelled, not the contents of
  the elements.
\<close>

record CDynArraySB =
  list :: addr
  list_size :: int
  num_elements :: int
  m_BaseData :: addr
  BASE_COUNT :: int

definition CDynArraySB_new :: "addr \<Rightarrow> int \<Rightarrow> CDynArraySB" where
  "CDynArraySB_new pBaseData BaseCount =
     \<lparr>list = pBaseData, list_size = BaseCount, num_elements = 0,
      m_BaseData = pBaseData, BASE_COUNT = BaseCount\<rparr>"

text \<open>
  Modelled from the spec: the base class \<^verbatim>\<open>array<T, ALLOCATOR>\<close> of \<^verbatim>\<open>base/tl/array.h\<close> is
  not part of the header. Its \<^verbatim>\<open>clear\<close>, \<^verbatim>\<open>alloc\<close>, \<^verbatim>\<open>set_size\<close> and \<^verbatim>\<open>delete_all\<close>
  are modelled as a conventional growable array whose storage is a separately allocated
  buffer: \<open>p\<close> is the address of the buffer the element allocator returns when the
  operation allocates.
\<close>

definition ParentT_clear :: "addr \<Rightarrow> CDynArraySB \<Rightarrow> CDynArraySB" where
  "ParentT_clear p s = s\<lparr>list := p, list_size := 1, num_elements := 0\<rparr>"

definition ParentT_alloc :: "addr \<Rightarrow> CDynArraySB \<Rightarrow> int \<Rightarrow> CDynArraySB" where
  "ParentT_alloc p s new_len =
     s\<lparr>list := p, list_size := new_len, num_elements := min (num_elements s) new_len\<rparr>"

definition ParentT_set_size :: "addr \<Rightarrow> CDynArraySB \<Rightarrow> int \<Rightarrow> CDynArraySB" where
  "ParentT_set_size p s new_size =
     (if list_size s < new_size then ParentT_alloc p s new_size else s)\<lparr>num_elements := new_size\<rparr>"

definition ParentT_delete_all :: "addr \<Rightarrow> CDynArraySB \<Rightarrow> CDynArraySB" where
  "ParentT_delete_all p s = ParentT_clear p s"

text \<open>The member functions of \<^verbatim>\<open>CDynArraySB\<close> itself.\<close>

definition SB_clear :: "addr \<Rightarrow> CDynArraySB \<Rightarrow> CDynArraySB" where
  "SB_clear p s =
     (if list s = m_BaseData s then s\<lparr>list_size := BASE_COUNT s, num_elements := 0\<rparr>
      else ParentT_clear p s)"

definition SB_delete_all :: "addr \<Rightarrow> CDynArraySB \<Rightarrow> CDynArraySB" where
  "SB_delete_all p s =
     (if list s = m_BaseData s then SB_clear p s else ParentT_delete_all p s)"

definition SB_alloc :: "addr \<Rightarrow> CDynArraySB \<Rightarrow> int \<Rightarrow> CDynArraySB" where
  "SB_alloc p s new_len =
     ParentT_alloc p (if list s = m_BaseData s then s\<lparr>list := 0\<rparr> else s) new_len"

definition SB_set_size_zero :: "addr \<Rightarrow> CDynArraySB \<Rightarrow> int \<Rightarrow> CDynArraySB" where
  "SB_set_size_zero p s new_size = ParentT_set_size p s new_size"

definition capacity :: "CDynArraySB \<Rightarrow> int" where
  "capacity s = list_size s"

datatype sb_op = Op_clear addr | Op_delete_all addr | Op_alloc addr int | Op_set_size_zero addr int

fun sb_addr :: "sb_op \<Rightarrow> addr" where
  "sb_addr (Op_clear p) = p"
| "sb_addr (Op_delete_all p) = p"
| "sb_addr (Op_alloc p n) = p"
| "sb_addr (Op_set_size_zero p n) = p"

fun sb_step :: "CDynArraySB \<Rightarrow> sb_op \<Rightarrow> CDynArraySB" where
  "sb_step s (Op_clear p) = SB_clear p s"
| "sb_step s (Op_delete_all p) = SB_delete_all p s"
| "sb_step s (Op_alloc p n) = SB_alloc p s n"
| "sb_step s (Op_set_size_zero p n) = SB_set_size_zero p s n"

definition sb_run :: "CDynArraySB \<Rightarrow> sb_op list \<Rightarrow> CDynArraySB" where
  "sb_run s ops = foldl sb_step s ops"

section \<open>Properties of blocks and sequences of calls\<close>

text \<open>
  The element index \<^verbatim>\<open>Start\<close> that \<^verbatim>\<open>Dealloc\<close> computes for a block, the test by which
  it takes the block for one of the pool, and the rings the elements of a block lie in.
\<close>

definition block_Start :: "int \<Rightarrow> CChainAllocator \<Rightarrow> CMemBlock \<Rightarrow> int" where
  "block_Start sz a b = to_int (ptr_diff sz (m_pStart b) (m_pElementBuffer a))"

definition in_pool :: "int \<Rightarrow> CChainAllocator \<Rightarrow> CMemBlock \<Rightarrow> bool" where
  "in_pool sz a b \<longleftrightarrow> block_Start sz a b \<ge> 0 \<and> block_Start sz a b + m_Count b \<le> ELT_COUNT_MAX a"

definition live_pool :: "int \<Rightarrow> CChainAllocator \<Rightarrow> CMemBlock \<Rightarrow> bool" where
  "live_pool sz a b \<longleftrightarrow> m_Count b > 0 \<and> in_pool sz a b"

definition ring_range :: "int \<Rightarrow> CChainAllocator \<Rightarrow> CMemBlock \<Rightarrow> int set" where
  "ring_range sz a b =
     {block_Start sz a b div RING_ELT_COUNT a ..<
      (block_Start sz a b + m_Count b - 1) div RING_ELT_COUNT a + 1}"

text \<open>The state \<^verbatim>\<open>Init\<close> leaves an allocator in, whatever the sizes given.\<close>

definition initialized :: "CChainAllocator \<Rightarrow> bool" where
  "initialized a \<longleftrightarrow>
     m_pElementBuffer a \<noteq> 0 \<and> 0 < RING_ELT_COUNT a \<and> 0 \<le> ELT_COUNT_MAX a \<and>
     ELT_COUNT_MAX a < 2 ^ 31 \<and> m_pElementBuffer a = m_aRingUsed a + ELT_COUNT_MAX a"

text \<open>
  The only thing known of the address \<open>p\<close> that \<^verbatim>\<open>mem_alloc\<close> returns for \<open>n\<close> bytes:
  the new block overlaps no block that \<^verbatim>\<open>mem_alloc\<close> has handed out and not got back.
\<close>

definition fresh_block :: "memory \<Rightarrow> addr \<Rightarrow> int \<Rightarrow> bool" where
  "fresh_block h p n \<longleftrightarrow> list_all (\<lambda>b. p + n \<le> fst b \<or> fst b + snd b \<le> p) (mem_blocks h)"

text \<open>
  A client of one allocator: it calls \<^verbatim>\<open>Alloc\<close> and keeps every block descriptor it
  gets, and it calls \<^verbatim>\<open>Dealloc\<close> on the descriptors it holds. \<open>Call_Alloc n p\<close> asks
  for \<open>n\<close> elements (\<open>p\<close> is the address \<^verbatim>\<open>mem_alloc\<close> would return);
  \<open>Call_Dealloc k\<close> passes the \<open>k\<close>-th descriptor.
\<close>

datatype call = Call_Alloc int addr | Call_Dealloc nat

fun call_step :: "int \<Rightarrow> bool \<Rightarrow> CChainAllocator \<Rightarrow> memory \<times> CMemBlock list \<Rightarrow> call
    \<Rightarrow> (error + (memory \<times> CMemBlock list)) option" where
  "call_step sz dbg a (h, bs) (Call_Alloc n p) =
     (case Alloc sz dbg p a h n of
        None \<Rightarrow> None
      | Some (Inl e) \<Rightarrow> Some (Inl e)
      | Some (Inr (b, h1)) \<Rightarrow> Some (Inr (h1, bs @ [b])))"
| "call_step sz dbg a (h, bs) (Call_Dealloc k) =
     (if k < length bs then
        (case Dealloc sz a h (bs ! k) of
           Inl e \<Rightarrow> Some (Inl e)
         | Inr (b, h1) \<Rightarrow> Some (Inr (h1, bs[k := b])))
      else Some (Inr (h, bs)))"

fun calls :: "int \<Rightarrow> bool \<Rightarrow> CChainAllocator \<Rightarrow> memory \<times> CMemBlock list \<Rightarrow> call list
    \<Rightarrow> (error + (memory \<times> CMemBlock list)) option" where
  "calls sz dbg a st [] = Some (Inr st)"
| "calls sz dbg a st (c # cs) =
     (case call_step sz dbg a st c of
        None \<Rightarrow> None
      | Some (Inl e) \<Rightarrow> Some (Inl e)
      | Some (Inr st1) \<Rightarrow> calls sz dbg a st1 cs)"

text \<open>The block descriptors the client holds after a sequence of calls that returns.\<close>

definition calls_blocks :: "int \<Rightarrow> bool \<Rightarrow> CChainAllocator \<Rightarrow> memory \<Rightarrow> call list
    \<Rightarrow> CMemBlock list option" where
  "calls_blocks sz dbg a h cs =
     (case calls sz dbg a (h, []) cs of Some (Inr st) \<Rightarrow> Some (snd st) | _ \<Rightarrow> None)"

text \<open>
  The first-fit scan as the specification words it, one ring at a time: the request is
  rounded up to whole rings and the first run of that many free rings is taken.
\<close>

definition spec_rings_needed :: "CChainAllocator \<Rightarrow> int \<Rightarrow> int" where
  "spec_rings_needed a n = (n + RING_ELT_COUNT a - 1) div RING_ELT_COUNT a"

definition spec_first_fit :: "CChainAllocator \<Rightarrow> (addr \<Rightarrow> u8) \<Rightarrow> int \<Rightarrow> (int \<times> int) option" where
  "spec_first_fit a m n =
     (let need = spec_rings_needed a n
      in map_option (\<lambda>s. (s, need))
           (find (\<lambda>s. list_all (\<lambda>r. m (m_aRingUsed a + r) = 0) [s..s + need - 1])
                 [0..TOTAL_RING_COUNT a - need]))"

definition spec_block :: "int \<Rightarrow> CChainAllocator \<Rightarrow> (addr \<Rightarrow> u8) \<Rightarrow> int \<Rightarrow> CMemBlock option" where
  "spec_block sz a m n =
     map_option (\<lambda>(s, c). \<lparr>m_pStart = m_pElementBuffer a + sz * (s * RING_ELT_COUNT a),
                           m_Count = c * RING_ELT_COUNT a\<rparr>)
       (spec_first_fit a m n)"

text \<open>
  The capacity of the array after \<^verbatim>\<open>Add\<close> and its elements after \<^verbatim>\<open>Add\<close>, when \<^verbatim>\<open>Add\<close>
  returns.
\<close>

definition Add_capacity :: "int \<Rightarrow> bool \<Rightarrow> addr \<Rightarrow> memory \<Rightarrow> CDynArray \<Rightarrow> addr \<Rightarrow> int
    \<Rightarrow> int option" where
  "Add_capacity sz dbg pFallBack h arr aElements Cnt =
     (case Add sz dbg pFallBack h arr aElements Cnt of
        Some (Inr (r, arr1, h1)) \<Rightarrow> Some (Capacity arr1)
      | _ \<Rightarrow> None)"

definition Add_elts :: "int \<Rightarrow> bool \<Rightarrow> addr \<Rightarrow> memory \<Rightarrow> CDynArray \<Rightarrow> addr \<Rightarrow> int
    \<Rightarrow> u8 list list option" where
  "Add_elts sz dbg pFallBack h arr aElements Cnt =
     (case Add sz dbg pFallBack h arr aElements Cnt of
        Some (Inr (r, arr1, h1)) \<Rightarrow> Some (elts sz h1 arr1)
      | _ \<Rightarrow> None)"

text \<open>
  Example states: the allocator that \<^verbatim>\<open>Init(64, 8)\<close> leaves for four-byte elements when
  \<^verbatim>\<open>mem_alloc\<close> returns the address 1000, in a memory of zero bytes.
\<close>

definition ex_pool :: CChainAllocator where
  "ex_pool = \<lparr>m_AllocatedSize = 264, m_aRingUsed = 1000, m_pElementBuffer = 1064,
               ELT_COUNT_MAX = 64, RING_ELT_COUNT = 8\<rparr>"

definition ex_mem :: memory where
  "ex_mem = \<lparr>mem_bytes = (\<lambda>x. 0), mem_blocks = [(1000, 264)], mem_breaks = 0\<rparr>"

text \<open>An array holding the three 32-bit values 10, 20, 30 in the first ring of the pool.\<close>

definition ex_mem_123 :: memory where
  "ex_mem_123 =
     \<lparr>mem_bytes = (\<lambda>x. if x = 1064 then 10 else if x = 1068 then 20 else if x = 1072 then 30 else 0),
      mem_blocks = [(1000, 264)], mem_breaks = 0\<rparr>"

definition ex_arr_123 :: CDynArray where
  "ex_arr_123 = \<lparr>m_pAllocator = Some ex_pool,
                  m_MemBlock = \<lparr>m_pStart = 1064, m_Count = 8\<rparr>, m_EltCount = 3\<rparr>"

text \<open>
  The allocator \<^verbatim>\<open>Init(8, 1)\<close> leaves for four-byte elements at the address 1000, the
  memory after that \<^verbatim>\<open>Init\<close> and the memory after a following \<^verbatim>\<open>Alloc(4)\<close>; \<open>g\<close> is the
  content of the memory before \<^verbatim>\<open>Init\<close>.
\<close>

definition ex_pool8 :: CChainAllocator where
  "ex_pool8 = \<lparr>m_AllocatedSize = 40, m_aRingUsed = 1000, m_pElementBuffer = 1008,
                ELT_COUNT_MAX = 8, RING_ELT_COUNT = 1\<rparr>"

definition ex_mem8 :: "(addr \<Rightarrow> u8) \<Rightarrow> memory" where
  "ex_mem8 g = \<lparr>mem_bytes = mem_zero g 1000 8, mem_blocks = [(1000, 40)], mem_breaks = 0\<rparr>"

definition ex_mem8_4 :: "(addr \<Rightarrow> u8) \<Rightarrow> memory" where
  "ex_mem8_4 g = \<lparr>mem_bytes = mem_zero (memset (mem_zero g 1000 8) 1000 0xFF 4) 1008 16,
                   mem_blocks = [(1000, 40)], mem_breaks = 0\<rparr>"

text \<open>
  An allocator with one element per ring (\<^verbatim>\<open>Init(64, 1)\<close>, four-byte elements, at the
  address 1000), a memory in which its rings 0 and 1 are marked used, the first element
  is 10 and the four bytes at 9000 hold 20, and an array holding that block with one live
  element. The last array is an empty one bound to the allocator of \<^verbatim>\<open>Init(64, 8)\<close>.
\<close>

definition ex_pool1 :: CChainAllocator where
  "ex_pool1 = \<lparr>m_AllocatedSize = 320, m_aRingUsed = 1000, m_pElementBuffer = 1064,
                ELT_COUNT_MAX = 64, RING_ELT_COUNT = 1\<rparr>"



definition ex_arr0 :: CDynArray where
  "ex_arr0 = \<lparr>m_pAllocator = Some ex_pool,
               m_MemBlock = \<lparr>m_pStart = 0, m_Count = 0\<rparr>, m_EltCount = 0\<rparr>"

text \<open>
  States on the allocator of \<^verbatim>\<open>Init(64, 8)\<close>, whose block of memory is \<open>[1000, 1264)\<close> and
  whose element buffer is \<open>[1064, 1320)\<close>: the memory after \<^verbatim>\<open>Alloc(64)\<close>, after a following
  \<^verbatim>\<open>Alloc(8)\<close> for which \<^verbatim>\<open>mem_alloc\<close> returns the address 1280, and after \<^verbatim>\<open>Dealloc\<close> of
  that block; and the memory after \<^verbatim>\<open>AllocOne\<close> on the fresh allocator.
\<close>

definition ex_full :: memory where
  "ex_full = \<lparr>mem_bytes = mem_zero (memset (\<lambda>x. 0) 1000 0xFF 8) 1064 256,
               mem_blocks = [(1000, 264)], mem_breaks = 0\<rparr>"

definition ex_full_fb :: memory where
  "ex_full_fb = \<lparr>mem_bytes = mem_zero (mem_bytes ex_full) 1280 32,
                  mem_blocks = [(1280, 32), (1000, 264)], mem_breaks = 0\<rparr>"

definition ex_full_fb_d :: memory where
  "ex_full_fb_d = \<lparr>mem_bytes = mem_zero (mem_bytes ex_full_fb) 1006 1,
                    mem_blocks = [(1280, 32), (1000, 264)], mem_breaks = 0\<rparr>"

definition ex_one :: memory where
  "ex_one = \<lparr>mem_bytes = mem_zero (memset (\<lambda>x. 0) 1000 0xFF 1) 1064 32,
              mem_blocks = [(1000, 264)], mem_breaks = 0\<rparr>"

text \<open>The zero memory holding the block of the allocator of \<^verbatim>\<open>Init(64, 1)\<close>.\<close>

definition ex_mem_z1 :: memory where
  "ex_mem_z1 = \<lparr>mem_bytes = (\<lambda>x. 0), mem_blocks = [(1000, 320)], mem_breaks = 0\<rparr>"

text \<open>
  A run of an array on the allocator of \<^verbatim>\<open>Init(64, 8)\<close>. The memory holds the values 7 and
  9 at the addresses 9000 and 9004. \<open>ex_s1\<close> and \<open>ex_s2\<close> are the memory after
  \<^verbatim>\<open>Alloc(6)\<close> and \<^verbatim>\<open>Alloc(2)\<close>, which fill the pool; \<open>ex_a3\<close> and \<open>ex_s3\<close> are the array and
  the memory after the first \<^verbatim>\<open>Add\<close>, for which \<^verbatim>\<open>mem_alloc\<close> returns the address 1280;
  \<open>ex_s4\<close> is the memory after \<^verbatim>\<open>Dealloc\<close> of the second block.
\<close>

definition ex_src :: memory where
  "ex_src = \<lparr>mem_bytes = (\<lambda>x. if x = 9000 then 7 else if x = 9004 then 9 else 0),
              mem_blocks = [(1000, 264)], mem_breaks = 0\<rparr>"

definition ex_s1 :: memory where
  "ex_s1 = \<lparr>mem_bytes = mem_zero (memset (mem_bytes ex_src) 1000 0xFF 6) 1064 192,
             mem_blocks = [(1000, 264)], mem_breaks = 0\<rparr>"

definition ex_s2 :: memory where
  "ex_s2 = \<lparr>mem_bytes = mem_zero (memset (mem_bytes ex_s1) 1006 0xFF 2) 1256 64,
             mem_blocks = [(1000, 264)], mem_breaks = 0\<rparr>"

definition ex_a3 :: CDynArray where
  "ex_a3 = \<lparr>m_pAllocator = Some ex_pool,
             m_MemBlock = \<lparr>m_pStart = 1280, m_Count = 1\<rparr>, m_EltCount = 1\<rparr>"

definition ex_s3 :: memory where
  "ex_s3 = \<lparr>mem_bytes = mem_copy (mem_copy (mem_zero (mem_bytes ex_s2) 1280 4) 1280 0 0) 1280 9000 4,
             mem_blocks = [(1280, 4), (1000, 264)], mem_breaks = 0\<rparr>"

definition ex_s4 :: memory where
  "ex_s4 = \<lparr>mem_bytes = mem_zero (mem_bytes ex_s3) 1006 2,
             mem_blocks = [(1280, 4), (1000, 264)], mem_breaks = 0\<rparr>"

section \<open>Auxiliary facts\<close>

lemma memset_apply: "memset m p v n x = (if p \<le> x \<and> x < p + n then v else m x)"
  by (simp add: memset_def)

lemma mem_zero_apply: "mem_zero m p n x = (if p \<le> x \<and> x < p + n then 0 else m x)"
  by (simp add: mem_zero_def memset_def)

lemma c_div_nonneg: "0 \<le> a \<Longrightarrow> 0 < b \<Longrightarrow> c_div a b = a div b"
  by (simp add: c_div_def sgn_if)

lemma size_t_id: "0 \<le> n \<Longrightarrow> n < 2 ^ 64 \<Longrightarrow> size_t n = n"
  by (simp add: size_t_def)

lemma size_t_le: "0 \<le> n \<Longrightarrow> size_t n \<le> n"
  unfolding size_t_def by (rule zmod_le_nonneg_dividend)

lemma size_t_nonneg: "0 \<le> size_t n"
  by (simp add: size_t_def)



text \<open>
  For a count that is not negative the scan ends, so \<^verbatim>\<open>Alloc\<close> returns; and when the scan
  finds no chain, \<^verbatim>\<open>Alloc\<close> returns a zeroed block of the heap of exactly the count asked.
\<close>

lemma Alloc_scan_total:
  assumes R: "0 < RING_ELT_COUNT a" and n: "0 \<le> n"
  shows "0 \<le> cnt \<Longrightarrow> \<exists>y. Alloc_scan a m n i st cnt rd = Some y"
proof (induction "nat (TOTAL_RING_COUNT a - i)" arbitrary: i st cnt rd rule: less_induct)
  case less
  show ?case
  proof (cases "i < TOTAL_RING_COUNT a")
    case False
    then show ?thesis by (subst Alloc_scan.simps) simp
  next
    case True
    have next1: "\<exists>y. Alloc_scan a m n (i + 1) st' cnt' rd' = Some y" if "0 \<le> cnt'" for st' cnt' rd'
      using True that by (intro less.hyps) simp_all
    have next8: "\<exists>y. Alloc_scan a m n (i + 7 + 1) st' 0 rd' = Some y" for st' rd'
      using True by (intro less.hyps) simp_all
    have nextz: "\<exists>y. Alloc_scan a m n (i + (min n 8 - 1) + 1) st (cnt + min n 8) (rd @ [i]) = Some y"
      if "\<not> n \<le> (cnt + min n 8) * RING_ELT_COUNT a"
    proof -
      have "0 \<le> (cnt + min n 8) * RING_ELT_COUNT a" using less.prems n R by simp
      with that have "1 \<le> min n 8" by simp
      with True less.prems n show ?thesis by (intro less.hyps) simp_all
    qed
    show ?thesis
      using next1 [of "cnt + 1" st "rd @ [i]"] next1 [of 0 "i + 1" "rd @ [i]"]
        next8 [of "i + 8" "rd @ [i]"] nextz less.prems True
      by (subst Alloc_scan.simps) (simp add: Let_def)
  qed
qed

lemma Alloc_returns:
  assumes "initialized a" "0 \<le> n"
  shows "\<exists>res. Alloc sz dbg p a h n = Some res"
proof -
  from assms(1) have R: "0 < RING_ELT_COUNT a" by (simp add: initialized_def)
  from Alloc_scan_total [OF R assms(2), of 0 "mem_bytes h" 0 0 "[]"]
  obtain y where "Alloc_scan a (mem_bytes h) n 0 0 0 [] = Some y" by auto
  then show ?thesis
    by (cases y) (auto simp: Alloc_def Let_def split: option.splits prod.splits)
qed

lemma Alloc_fallback:
  assumes "m_pElementBuffer a \<noteq> 0" "RING_ELT_COUNT a \<noteq> 0"
    and "Alloc_scan a (mem_bytes h) n 0 0 0 [] = Some (None, rd)"
  shows "\<exists>h1. Alloc sz dbg p a h n = Some (Inr (\<lparr>m_pStart = p, m_Count = n\<rparr>, h1)) \<and>
     (\<forall>x. p \<le> x \<and> x < p + size_t (sz * n) \<longrightarrow> mem_bytes h1 x = 0) \<and>
     mem_breaks h1 = (if dbg then Suc (mem_breaks h) else mem_breaks h)"
  using assms by (simp add: Alloc_def Let_def mem_alloc_def dbg_break_def mem_zero_apply)

text \<open>\<^verbatim>\<open>Init\<close> with sizes that are positive as \<^verbatim>\<open>int\<close> leaves the allocator initialised.\<close>

lemma Init_initialized:
  assumes "Init sz p a0 h E R = Inr (a, h1)" "0 \<le> sint E" "0 < sint R" "0 < p"
  shows "initialized a"
proof -
  have "sint E < 2 ^ (LENGTH(32) - 1)" by (rule sint_lt)
  then have "sint E < 2 ^ 31" by simp
  with assms show ?thesis
    by (auto simp: Init_def Let_def initialized_def split: if_splits)
qed

lemma sb_step_keeps:
  "list s \<noteq> m_BaseData s \<Longrightarrow> sb_addr c \<noteq> m_BaseData s \<Longrightarrow>
   list (sb_step s c) \<noteq> m_BaseData (sb_step s c) \<and> m_BaseData (sb_step s c) = m_BaseData s"
  by (cases c)
    (simp_all add: SB_clear_def SB_delete_all_def SB_alloc_def SB_set_size_zero_def
      ParentT_clear_def ParentT_delete_all_def ParentT_alloc_def ParentT_set_size_def)

lemma elt_bytes_cong:
  assumes "\<And>k. 0 \<le> k \<Longrightarrow> k < sz \<Longrightarrow> m' (p + sz * i + k) = m (q + sz * j + k)"
  shows "elt_bytes sz m' p i = elt_bytes sz m q j"
  unfolding elt_bytes_def by (rule map_cong) (auto intro: assms)

lemma elts_three:
  assumes "elts sz h arr = [x, y, z]"
  shows "m_EltCount arr = 3" "elt sz h arr 0 = x" "elt sz h arr 1 = y" "elt sz h arr 2 = z"
proof -
  have "length (elts sz h arr) = 3" using assms by simp
  then have n: "nat (m_EltCount arr) = 3" by (simp add: elts_def)
  then show c: "m_EltCount arr = 3" by arith
  have "[0..<3] = [0, 1, 2]" by (simp add: upt_rec)
  with assms n show "elt sz h arr 0 = x" "elt sz h arr 1 = y" "elt sz h arr 2 = z"
    by (simp_all add: elts_def)
qed


lemmas alloc_ev = Alloc_def Alloc_scan.simps TOTAL_RING_COUNT_def c_div_def load_u64_def
  Let_def size_t_def mem_zero_apply memset_apply mem_alloc_def dbg_break_def

lemma Init_8_1:
  "Init 4 1000 CChainAllocator_new \<lparr>mem_bytes = g, mem_blocks = [], mem_breaks = 0\<rparr> 8 1
     = Inr (ex_pool8, ex_mem8 g)"
  by (simp add: Init_def CChainAllocator_new_def TOTAL_RING_COUNT_def c_div_def mem_alloc_def
      size_t_def ex_pool8_def ex_mem8_def)

lemma Alloc_4_of_8:
  "Alloc 4 dbg q ex_pool8 (ex_mem8 g) 4 = Some (Inr (\<lparr>m_pStart = 1008, m_Count = 4\<rparr>, ex_mem8_4 g))"
  by (simp add: alloc_ev ex_pool8_def ex_mem8_def ex_mem8_4_def)

lemma no_run_of_8: "spec_first_fit ex_pool8 (mem_bytes (ex_mem8_4 g)) 8 = None"
  by (simp add: spec_first_fit_def spec_rings_needed_def ex_pool8_def ex_mem8_4_def
      TOTAL_RING_COUNT_def c_div_def mem_zero_apply memset_apply upto_rec1)

lemma Alloc_8_any_memory: "Alloc 4 dbg q ex_pool8 (ex_mem8_4 g) 8 = Some (Inl Assert_Failed)"
  by (simp add: alloc_ev ex_pool8_def ex_mem8_4_def)

lemma Alloc_reads_any_memory: "Alloc_reads ex_pool8 (ex_mem8_4 g) 8 = Some [0, 1, 2, 3, 4]"
  by (simp add: Alloc_reads_def alloc_ev ex_pool8_def ex_mem8_4_def)

lemma Alloc_5_any_memory:
  "map_option (map_sum id (m_Count \<circ> fst))
     (Alloc sz dbg q ex_pool \<lparr>mem_bytes = mem_zero g 1000 8, mem_blocks = bl, mem_breaks = k\<rparr> 5)
     = Some (Inr 40)"
  by (simp add: alloc_ev ex_pool_def)




lemma memmove_apply:
  "memmove m dst src n x = (if dst \<le> x \<and> x < dst + n then m (src + (x - dst)) else m x)"
  by (simp add: memmove_def)

lemma mem_copy_apply:
  "mem_copy m dst src n x = (if dst \<le> x \<and> x < dst + n then m (src + (x - dst)) else m x)"
  by (simp add: mem_copy_def memmove_def)

lemmas dyn_ev = Add_capacity_def Add_elts_def Add_def Reserve_def Capacity_def Data_def Dealloc_def
  ptr_diff_def to_int_def mem_copy_apply mem_free_def

lemmas ex_defs = ex_pool_def ex_mem_def ex_full_def ex_full_fb_def ex_full_fb_d_def ex_one_def

lemmas chain_defs = ex_pool_def ex_src_def ex_s1_def ex_s2_def ex_a3_def ex_s3_def ex_s4_def
  ex_arr0_def

lemma upt_1: "[0..<1] = [0]" and upt_2: "[0..<2] = [0, 1]" and upt_4: "[0..<4] = [0, 1, 2, 3]"
  by (simp_all add: upt_rec)

text \<open>
  The narrowing of \<open>Start\<close> alone lets \<^verbatim>\<open>Dealloc\<close> take a block of the heap for one of the
  pool. On the allocator of \<^verbatim>\<open>Init(64, 1)\<close>, whose buffer lies inside its block of memory,
  a heap block \<open>2 ^ 32\<close> elements above the buffer has \<open>Start = 0\<close>: its \<^verbatim>\<open>Dealloc\<close>
  clears the rings 0 to 7 of the live block of 64 elements, and the next \<^verbatim>\<open>Alloc(8)\<close>
  returns them again.
\<close>

lemma live_blocks_overlap_far:
  "fresh_block ex_mem_z1 (1064 + 4 * 2 ^ 32) (4 * 8) \<and>
   calls_blocks 4 False ex_pool1 ex_mem_z1
     [Call_Alloc 64 5000, Call_Alloc 8 (1064 + 4 * 2 ^ 32), Call_Dealloc 1, Call_Alloc 8 6000]
     = Some [\<lparr>m_pStart = 1064, m_Count = 64\<rparr>, \<lparr>m_pStart = 1064 + 4 * 2 ^ 32, m_Count = 0\<rparr>,
             \<lparr>m_pStart = 1064, m_Count = 8\<rparr>]"
  by (simp add: alloc_ev calls_blocks_def Dealloc_def ptr_diff_def to_int_def mem_free_def
      fresh_block_def ex_pool1_def ex_mem_z1_def)

section \<open>The claims\<close>

text \<open>
  C1. Two live blocks of the pool can share a ring. \<^verbatim>\<open>Init(64, 8)\<close> takes 264 bytes at the
  address 1000 and puts the element buffer at 1064, so the last 14 of its 64 four-byte
  elements lie behind its block of memory. After \<^verbatim>\<open>Alloc(64)\<close> the pool is full and
  \<^verbatim>\<open>Alloc(8)\<close> falls back to the heap; \<^verbatim>\<open>mem_alloc\<close> returns the free address 1280.
  \<^verbatim>\<open>Dealloc\<close> computes \<open>Start = 54\<close> for that block, takes it for a block of the pool and
  clears ring 6, which belongs to the live block of 64 elements. \<^verbatim>\<open>Alloc(1)\<close> then returns
  ring 6 again.
\<close>

theorem live_blocks_overlap:
  "Alloc 4 False 5000 ex_pool ex_mem 64 = Some (Inr (\<lparr>m_pStart = 1064, m_Count = 64\<rparr>, ex_full)) \<and>
   m_aRingUsed ex_pool + m_AllocatedSize ex_pool \<le> 1280 \<and> fresh_block ex_full 1280 (4 * 8) \<and>
   calls_blocks 4 False ex_pool ex_mem
     [Call_Alloc 64 5000, Call_Alloc 8 1280, Call_Dealloc 1, Call_Alloc 1 6000]
     = Some [\<lparr>m_pStart = 1064, m_Count = 64\<rparr>, \<lparr>m_pStart = 1280, m_Count = 0\<rparr>,
             \<lparr>m_pStart = 1256, m_Count = 8\<rparr>] \<and>
   live_pool 4 ex_pool \<lparr>m_pStart = 1064, m_Count = 64\<rparr> \<and>
   live_pool 4 ex_pool \<lparr>m_pStart = 1256, m_Count = 8\<rparr> \<and>
   ring_range 4 ex_pool \<lparr>m_pStart = 1064, m_Count = 64\<rparr> = {0..<8} \<and>
   ring_range 4 ex_pool \<lparr>m_pStart = 1256, m_Count = 8\<rparr> = {6..<7}"
  by (simp add: alloc_ev calls_blocks_def Dealloc_def ptr_diff_def to_int_def mem_free_def
      fresh_block_def live_pool_def in_pool_def ring_range_def block_Start_def ex_defs)

text \<open>
  C2. \<^verbatim>\<open>Alloc\<close> does not return the block of a one-ring-at-a-time first-fit scan. On the
  allocator \<^verbatim>\<open>Init(64, 8)\<close> has just initialised, \<^verbatim>\<open>Alloc(5)\<close> finds the first eight
  bitmap entries free, adds \<open>min(Count, 8) = 5\<close> rings to the chain and returns a block
  of 5 rings, 40 elements, where the first-fit scan of the specification returns one ring,
  8 elements.
\<close>

theorem Alloc_5_takes_five_rings:
  "Init 4 1000 CChainAllocator_new \<lparr>mem_bytes = (\<lambda>x. 0), mem_blocks = [], mem_breaks = 0\<rparr> 64 8
     = Inr (ex_pool, ex_mem\<lparr>mem_bytes := mem_zero (\<lambda>x. 0) 1000 8\<rparr>) \<and>
   map_option (map_sum id (m_Count \<circ> fst))
     (Alloc 4 False 5000 ex_pool (ex_mem\<lparr>mem_bytes := mem_zero (\<lambda>x. 0) 1000 8\<rparr>) 5)
     = Some (Inr 40) \<and>
   map_option m_Count (spec_block 4 ex_pool (mem_zero (\<lambda>x. 0) 1000 8) 5) = Some 8"
  by (simp add: alloc_ev Init_def CChainAllocator_new_def ex_pool_def ex_mem_def
      spec_block_def spec_first_fit_def spec_rings_needed_def upto_rec1)

text \<open>
  C3. \<^verbatim>\<open>Alloc\<close> does not always fall back to the heap when the pool has no sufficient run
  of free rings. After \<^verbatim>\<open>Init(8, 1)\<close> and \<^verbatim>\<open>Alloc(4)\<close> four rings are free. \<^verbatim>\<open>Alloc(8)\<close>
  loads eight bytes at ring 4: the last four bitmap entries and the first four bytes of
  the element buffer, which \<^verbatim>\<open>Alloc(4)\<close> has zeroed. It takes this for eight free rings,
  marks them, and fails its assertion on the size of the pool, with \<^verbatim>\<open>CONF_DEBUG\<close> and
  without.
\<close>

theorem Alloc_8_asserts:
  "Init 4 1000 CChainAllocator_new \<lparr>mem_bytes = (\<lambda>x. 0), mem_blocks = [], mem_breaks = 0\<rparr> 8 1
     = Inr (ex_pool8, ex_mem8 (\<lambda>x. 0)) \<and>
   Alloc 4 False 5000 ex_pool8 (ex_mem8 (\<lambda>x. 0)) 4
     = Some (Inr (\<lparr>m_pStart = 1008, m_Count = 4\<rparr>, ex_mem8_4 (\<lambda>x. 0))) \<and>
   spec_first_fit ex_pool8 (mem_bytes (ex_mem8_4 (\<lambda>x. 0))) 8 = None \<and>
   Alloc 4 False 6000 ex_pool8 (ex_mem8_4 (\<lambda>x. 0)) 8 = Some (Inl Assert_Failed) \<and>
   Alloc 4 True 6000 ex_pool8 (ex_mem8_4 (\<lambda>x. 0)) 8 = Some (Inl Assert_Failed)"
  by (simp add: Init_8_1 Alloc_4_of_8 no_run_of_8 Alloc_8_any_memory)

text \<open>
  C4. \<^verbatim>\<open>Dealloc\<close> can take a heap-fallback block for a block of the pool, and can leave the
  ring of a pool block marked. On the full pool of \<^verbatim>\<open>Init(64, 8)\<close>, \<^verbatim>\<open>Alloc(8)\<close> returns the
  heap block that \<^verbatim>\<open>mem_alloc\<close> places at 1280, behind the 264 bytes of the allocator.
  \<^verbatim>\<open>Dealloc\<close> of it does not give the block back to the heap and zeroes the bitmap entry of
  ring 6. The element \<^verbatim>\<open>AllocOne\<close> returns takes ring 0, and \<^verbatim>\<open>DeallocOne\<close> of it clears
  \<open>1 / 8 = 0\<close> rings: ring 0 stays marked.
\<close>

theorem Dealloc_fallback_in_pool_tail:
  "Alloc 4 False 5000 ex_pool ex_mem 64 = Some (Inr (\<lparr>m_pStart = 1064, m_Count = 64\<rparr>, ex_full)) \<and>
   m_aRingUsed ex_pool + m_AllocatedSize ex_pool \<le> 1280 \<and> fresh_block ex_full 1280 (4 * 8) \<and>
   Alloc 4 False 1280 ex_pool ex_full 8 = Some (Inr (\<lparr>m_pStart = 1280, m_Count = 8\<rparr>, ex_full_fb)) \<and>
   Dealloc 4 ex_pool ex_full_fb \<lparr>m_pStart = 1280, m_Count = 8\<rparr>
     = Inr (\<lparr>m_pStart = 1280, m_Count = 0\<rparr>, ex_full_fb_d) \<and>
   mem_blocks ex_full_fb_d = mem_blocks ex_full_fb \<and>
   mem_bytes ex_full_fb (m_aRingUsed ex_pool + 6) = 0xFF \<and>
   mem_bytes ex_full_fb_d (m_aRingUsed ex_pool + 6) = 0 \<and>
   AllocOne 4 False 5000 ex_pool ex_mem = Some (Inr (1064, ex_one)) \<and>
   mem_bytes ex_one (m_aRingUsed ex_pool) = 0xFF \<and>
   map_sum id (\<lambda>h. mem_bytes h (m_aRingUsed ex_pool)) (DeallocOne 4 ex_pool ex_one 1064) = Inr 0xFF"
  by (simp add: alloc_ev AllocOne_def DeallocOne_def Dealloc_def ptr_diff_def to_int_def
      fresh_block_def ex_defs)

text \<open>
  C5. \<^verbatim>\<open>Add\<close> can lose an element. On the allocator of \<^verbatim>\<open>Init(64, 8)\<close>, \<^verbatim>\<open>Alloc(6)\<close> and
  \<^verbatim>\<open>Alloc(2)\<close> fill the pool. The first \<^verbatim>\<open>Add\<close> to an empty array falls back to the heap
  and \<^verbatim>\<open>mem_alloc\<close> returns the free address 1280, behind the 264 bytes of the allocator
  and inside the range of its element buffer; the array holds the element 7. After
  \<^verbatim>\<open>Dealloc\<close> of the second block the rings 6 and 7 are free. The second \<^verbatim>\<open>Add\<close> reserves
  two elements, \<^verbatim>\<open>Alloc\<close> returns the rings 6 and 7 and zeroes the bytes 1256 to 1319,
  the old block of the array among them, and \<^verbatim>\<open>Reserve\<close> copies the zeroed element: the
  array holds 0 and 9.
\<close>

theorem Add_loses_element:
  "Alloc 4 False 5000 ex_pool ex_src 6 = Some (Inr (\<lparr>m_pStart = 1064, m_Count = 48\<rparr>, ex_s1)) \<and>
   Alloc 4 False 5000 ex_pool ex_s1 2 = Some (Inr (\<lparr>m_pStart = 1256, m_Count = 16\<rparr>, ex_s2)) \<and>
   DynArray_Init \<lparr>m_pAllocator = None, m_MemBlock = \<lparr>m_pStart = 0, m_Count = 0\<rparr>,
                  m_EltCount = 0\<rparr> ex_pool = Inr ex_arr0 \<and>
   m_aRingUsed ex_pool + m_AllocatedSize ex_pool \<le> 1280 \<and> fresh_block ex_s2 1280 (4 * 1) \<and>
   Add 4 False 1280 ex_s2 ex_arr0 9000 1 = Some (Inr (1276, ex_a3, ex_s3)) \<and>
   elts 4 ex_s3 ex_a3 = [[7, 0, 0, 0]] \<and>
   Dealloc 4 ex_pool ex_s3 \<lparr>m_pStart = 1256, m_Count = 16\<rparr>
     = Inr (\<lparr>m_pStart = 1256, m_Count = 0\<rparr>, ex_s4) \<and>
   elts 4 ex_s4 ex_a3 = [[7, 0, 0, 0]] \<and>
   Add_elts 4 False 5000 ex_s4 ex_a3 9004 1 = Some [[0, 0, 0, 0], [9, 0, 0, 0]]"
proof -
  have s1: "Alloc 4 False 5000 ex_pool ex_src 6
      = Some (Inr (\<lparr>m_pStart = 1064, m_Count = 48\<rparr>, ex_s1))"
    by (simp add: alloc_ev chain_defs)
  have s2: "Alloc 4 False 5000 ex_pool ex_s1 2
      = Some (Inr (\<lparr>m_pStart = 1256, m_Count = 16\<rparr>, ex_s2))"
    by (simp add: alloc_ev chain_defs)
  have i: "DynArray_Init \<lparr>m_pAllocator = None, m_MemBlock = \<lparr>m_pStart = 0, m_Count = 0\<rparr>,
      m_EltCount = 0\<rparr> ex_pool = Inr ex_arr0"
    by (simp add: DynArray_Init_def ex_arr0_def)
  have f: "m_aRingUsed ex_pool + m_AllocatedSize ex_pool \<le> 1280" "fresh_block ex_s2 1280 (4 * 1)"
    by (simp_all add: fresh_block_def chain_defs)
  have s3: "Add 4 False 1280 ex_s2 ex_arr0 9000 1 = Some (Inr (1276, ex_a3, ex_s3))"
    by (simp add: dyn_ev alloc_ev chain_defs)
  have e3: "elts 4 ex_s3 ex_a3 = [[7, 0, 0, 0]]"
    by (simp add: elts_def elt_def elt_bytes_def Data_def upt_1 upt_4 chain_defs mem_copy_apply
        mem_zero_apply memset_apply)
  have s4: "Dealloc 4 ex_pool ex_s3 \<lparr>m_pStart = 1256, m_Count = 16\<rparr>
      = Inr (\<lparr>m_pStart = 1256, m_Count = 0\<rparr>, ex_s4)"
    by (simp add: Dealloc_def Let_def ptr_diff_def to_int_def c_div_def size_t_def chain_defs)
  have e4: "elts 4 ex_s4 ex_a3 = [[7, 0, 0, 0]]"
    by (simp add: elts_def elt_def elt_bytes_def Data_def upt_1 upt_4 chain_defs mem_copy_apply
        mem_zero_apply memset_apply)
  have s5: "Add_elts 4 False 5000 ex_s4 ex_a3 9004 1 = Some [[0, 0, 0, 0], [9, 0, 0, 0]]"
    by (simp add: dyn_ev alloc_ev chain_defs elts_def elt_def elt_bytes_def upt_2 upt_4)
  from s1 s2 i f s3 e3 s4 e4 s5 show ?thesis by simp
qed




text \<open>
  C7. On an array whose live elements are \<open>x, y, z\<close> (for instance 10, 20, 30),
  \<^verbatim>\<open>RemoveByIndex(0)\<close> leaves \<open>z, y\<close> and \<^verbatim>\<open>RemoveByIndexSlide(0)\<close> leaves \<open>y, z\<close>,
  both with \<^verbatim>\<open>Count() == 2\<close>; an index outside \<open>[0, Count())\<close> fails the assertion of
  either function.
\<close>

theorem Remove_three:
  assumes sz: "0 < sz" "sz < 2 ^ 31" and e: "elts sz h arr = [x, y, z]"
  shows "(\<exists>arr' h'. RemoveByIndex sz h arr 0 = Inr (arr', h') \<and>
            elts sz h' arr' = [z, y] \<and> Count arr' = 2) \<and>
         (\<exists>arr' h'. RemoveByIndexSlide sz h arr 0 = Inr (arr', h') \<and>
            elts sz h' arr' = [y, z] \<and> Count arr' = 2) \<and>
         (\<forall>Index. \<not> (0 \<le> Index \<and> Index < Count arr) \<longrightarrow>
            RemoveByIndex sz h arr Index = Inl Out_Of_Bounds \<and>
            RemoveByIndexSlide sz h arr Index = Inl Out_Of_Bounds)"
proof (intro conjI)
  note three = elts_three [OF e]
  have up: "[0..<2] = [0, 1]" by (simp add: upt_rec)
  let ?D = "Data arr" and ?m = "mem_bytes h"
  let ?a1 = "arr\<lparr>m_EltCount := m_EltCount arr - 1\<rparr>"
  let ?h1 = "h\<lparr>mem_bytes := mem_copy ?m (?D + sz * 0) (?D + sz * (m_EltCount arr - 1)) sz\<rparr>"
  have r1: "RemoveByIndex sz h arr 0 = Inr (?a1, ?h1)"
    using three(1) by (simp add: RemoveByIndex_def)
  have "elt sz ?h1 ?a1 0 = elt sz h arr 2"
    unfolding elt_def using three(1) sz
    by (intro elt_bytes_cong) (simp add: Data_def mem_copy_def memmove_def)
  moreover have "elt sz ?h1 ?a1 1 = elt sz h arr 1"
    unfolding elt_def using three(1) sz
    by (intro elt_bytes_cong) (simp add: Data_def mem_copy_def memmove_def)
  ultimately have "elts sz ?h1 ?a1 = [z, y]"
    using three by (simp add: elts_def up)
  with r1 three(1) show "\<exists>arr' h'. RemoveByIndex sz h arr 0 = Inr (arr', h') \<and>
            elts sz h' arr' = [z, y] \<and> Count arr' = 2"
    by (simp add: Count_def)
  let ?h2 = "h\<lparr>mem_bytes := memmove ?m (?D + sz * 0) (?D + sz * (0 + 1))
                                (size_t ((m_EltCount arr - (0 + 1)) * sz))\<rparr>"
  have r2: "RemoveByIndexSlide sz h arr 0 = Inr (?a1, ?h2)"
    using three(1) by (simp add: RemoveByIndexSlide_def)
  have st: "size_t (2 * sz) = 2 * sz" using sz by (intro size_t_id) simp_all
  have "elt sz ?h2 ?a1 0 = elt sz h arr 1"
    unfolding elt_def using three(1) sz st
    by (intro elt_bytes_cong) (simp add: Data_def memmove_def)
  moreover have "elt sz ?h2 ?a1 1 = elt sz h arr 2"
    unfolding elt_def using three(1) sz st
    by (intro elt_bytes_cong) (simp add: Data_def memmove_def algebra_simps)
  ultimately have "elts sz ?h2 ?a1 = [y, z]"
    using three by (simp add: elts_def up)
  with r2 three(1) show "\<exists>arr' h'. RemoveByIndexSlide sz h arr 0 = Inr (arr', h') \<and>
            elts sz h' arr' = [y, z] \<and> Count arr' = 2"
    by (simp add: Count_def)
  show "\<forall>Index. \<not> (0 \<le> Index \<and> Index < Count arr) \<longrightarrow>
            RemoveByIndex sz h arr Index = Inl Out_Of_Bounds \<and>
            RemoveByIndexSlide sz h arr Index = Inl Out_Of_Bounds"
    by (simp add: RemoveByIndex_def RemoveByIndexSlide_def Count_def)
qed


theorem Remove_three_witness:
  "elts 4 ex_mem_123 ex_arr_123 = [[10, 0, 0, 0], [20, 0, 0, 0], [30, 0, 0, 0]] \<and>
   (\<exists>arr' h'. RemoveByIndex 4 ex_mem_123 ex_arr_123 0 = Inr (arr', h') \<and>
      elts 4 h' arr' = [[30, 0, 0, 0], [20, 0, 0, 0]] \<and> Count arr' = 2) \<and>
   (\<exists>arr' h'. RemoveByIndexSlide 4 ex_mem_123 ex_arr_123 0 = Inr (arr', h') \<and>
      elts 4 h' arr' = [[20, 0, 0, 0], [30, 0, 0, 0]] \<and> Count arr' = 2)"
proof -
  have n3: "[0..<3] = [0, 1, 2]" and n4: "[0..<4] = [0, 1, 2, 3]" by (simp_all add: upt_rec)
  have e: "elts 4 ex_mem_123 ex_arr_123 = [[10, 0, 0, 0], [20, 0, 0, 0], [30, 0, 0, 0]]"
    by (simp add: elts_def elt_def elt_bytes_def Data_def ex_mem_123_def ex_arr_123_def n3 n4)
  have s: "(0::int) < 4" "(4::int) < 2 ^ 31" by simp_all
  from Remove_three [OF s e] e show ?thesis by simp
qed

text \<open>
  C8. Once \<open>list\<close> of a \<^verbatim>\<open>CDynArraySB\<close> no longer points to the inline buffer
  \<open>m_BaseData\<close>, no sequence of \<^verbatim>\<open>clear\<close>, \<^verbatim>\<open>delete_all\<close>, \<^verbatim>\<open>alloc\<close> and
  \<^verbatim>\<open>set_size_zero\<close> calls makes it point there again, provided the element allocator
  never returns the address of the inline buffer.
\<close>

theorem SB_never_reverts:
  "list s \<noteq> m_BaseData s \<Longrightarrow> \<forall>c \<in> set cs. sb_addr c \<noteq> m_BaseData s \<Longrightarrow>
   list (sb_run s cs) \<noteq> m_BaseData (sb_run s cs) \<and> m_BaseData (sb_run s cs) = m_BaseData s"
  unfolding sb_run_def
proof (induction cs arbitrary: s)
  case Nil
  then show ?case by simp
next
  case (Cons c cs)
  from Cons.prems have st: "list (sb_step s c) \<noteq> m_BaseData (sb_step s c)"
    and b: "m_BaseData (sb_step s c) = m_BaseData s"
    using sb_step_keeps [of s c] by simp_all
  from Cons.prems b have "\<forall>x \<in> set cs. sb_addr x \<noteq> m_BaseData (sb_step s c)" by simp
  from Cons.IH [OF st this] b show ?case by simp
qed

theorem SB_never_reverts_witness:
  "list (sb_run (SB_alloc 5000 (CDynArraySB_new 100 64) 65)
      [Op_clear 6000, Op_set_size_zero 7000 200, Op_alloc 8000 3, Op_delete_all 9000]) = 9000
   \<and> m_BaseData (sb_run (SB_alloc 5000 (CDynArraySB_new 100 64) 65)
      [Op_clear 6000, Op_set_size_zero 7000 200, Op_alloc 8000 3, Op_delete_all 9000]) = 100"
  using SB_never_reverts [of "SB_alloc 5000 (CDynArraySB_new 100 64) 65"
      "[Op_clear 6000, Op_set_size_zero 7000 200, Op_alloc 8000 3, Op_delete_all 9000]"]
  by (simp add: sb_run_def SB_clear_def SB_delete_all_def SB_alloc_def SB_set_size_zero_def
      ParentT_clear_def ParentT_delete_all_def ParentT_alloc_def ParentT_set_size_def
      CDynArraySB_new_def)

text \<open>
  C9. \<^verbatim>\<open>Dealloc\<close> is idempotent on a block descriptor: whenever it returns, the count of
  the descriptor is not positive (it is 0 if it was positive before, on the pool path and
  on the heap path alike), and a second \<^verbatim>\<open>Dealloc\<close> of the same descriptor returns at
  once, leaving descriptor and memory (bitmap and buffer included) as they are.
\<close>

theorem Dealloc_twice:
  "Dealloc sz a h b = Inr (b', h') \<Longrightarrow>
   m_Count b' \<le> 0 \<and> (0 < m_Count b \<longrightarrow> m_Count b' = 0) \<and> Dealloc sz a h' b' = Inr (b', h')"
  by (auto simp: Dealloc_def Let_def split: if_splits)

theorem Dealloc_twice_witness:
  "\<exists>b' h'. Dealloc 4 ex_pool ex_mem \<lparr>m_pStart = 1064, m_Count = 8\<rparr> = Inr (b', h') \<and>
     m_Count b' = 0 \<and> Dealloc 4 ex_pool h' b' = Inr (b', h')"
proof -
  have e: "Dealloc 4 ex_pool ex_mem \<lparr>m_pStart = 1064, m_Count = 8\<rparr> =
      Inr (\<lparr>m_pStart = 1064, m_Count = 0\<rparr>,
           ex_mem\<lparr>mem_bytes := mem_zero (mem_bytes ex_mem) 1000 1\<rparr>)"
    by (simp add: Dealloc_def Let_def ex_pool_def ptr_diff_def to_int_def c_div_def size_t_def)
  from Dealloc_twice [OF e] e show ?thesis by simp
qed

text \<open>
  C10. The eight-byte loads of the scan are not confined to the bitmap. After \<^verbatim>\<open>Init(8, 1)\<close>
  and \<^verbatim>\<open>Alloc(4)\<close> the bitmap has 8 entries and \<^verbatim>\<open>Alloc(8)\<close> loads eight bytes at each of
  the indices 0 to 4; the load at index 4 covers the bytes 4 to 11.
\<close>

theorem Alloc_reads_past_bitmap:
  "initialized ex_pool8 \<and> TOTAL_RING_COUNT ex_pool8 = 8 \<and>
   Alloc_reads ex_pool8 (ex_mem8_4 (\<lambda>x. 0)) 8 = Some [0, 1, 2, 3, 4] \<and>
   \<not> (4 + 7 < TOTAL_RING_COUNT ex_pool8)"
  by (simp add: Alloc_reads_any_memory)
    (simp add: initialized_def ex_pool8_def TOTAL_RING_COUNT_def c_div_def)

end
